theory Spec2Isabelle
  imports Main "HOL-Library.Word" "HOL-Library.Finite_Map"
begin

section \<open>The hierarchical resource cache of kubegems (package cache)\<close>

text \<open>
  The Go package keeps the tenancy tree (tenants, projects, environments, virtual spaces)
  in one Redis hash stored under \<open>ModelCacheKey\<close>, and one Redis string per user holding
  the user's flattened role assignments. The embedding below follows the Go source function
  by function. Redis and the relational store are the environment: their contents are
  explicit values, every round trip may fail, and the failures a call meets are an explicit
  argument of the call.
\<close>

subsection \<open>Entity model and cache keys\<close>

text \<open>Go's \<open>uint\<close> on a 64-bit platform.\<close>

type_synonym uint = "64 word"

text \<open>Modelled from the spec: the kind constants \<open>models.ResTenant\<close>, \<open>models.ResProject\<close>,
  \<open>models.ResEnvironment\<close> and \<open>models.ResVirtualSpace\<close> are declared in package
  \<open>models\<close>, whose source is not included; section 3 of the specification gives \<open>Kind\<close> as an
  enumeration of four pairwise distinct values.
\<close>

datatype kind = ResTenant | ResProject | ResEnvironment | ResVirtualSpace

text \<open>
  The struct \<open>Entity\<close>, with the fields the source assigns (in the order of the struct
  literals of \<open>BuildCacheIfNotExist\<close>). \<open>Owner\<close> is a slice of entities of which only
  \<open>Kind\<close> and \<open>ID\<close> are set.
\<close>

datatype Entity = Entity
  (Name: string) (Kind: kind) (ID: uint) (Namespace: string) (Cluster: string)
  (Owner: "Entity list")

text \<open>The owner reference \<open>{Kind: k, ID: i}\<close>: every other field has Go's zero value.\<close>

definition ownerRef :: "kind \<Rightarrow> uint \<Rightarrow> Entity" where
  "ownerRef k i = Entity [] k i [] [] []"

text \<open>The fields of the Redis hash: the strings the two key functions produce.\<close>

datatype field = KindID kind uint | ClusterNamespace string string

text \<open>Modelled from the spec: \<open>cacheKey\<close> and \<open>envCacheKey\<close> are defined in another file
  of the package, which is not included. Section 4.1: \<open>cacheKey(kind, id)\<close> is pure, deterministic and
  collision-free over (Kind, ID); \<open>envCacheKey(cluster, namespace)\<close> is a second deterministic
  function over (Cluster, Namespace), its range disjoint from the first one's.
\<close>

definition cacheKey :: "kind \<Rightarrow> uint \<Rightarrow> field" where
  "cacheKey k i = KindID k i"

definition envCacheKey :: "string \<Rightarrow> string \<Rightarrow> field" where
  "envCacheKey cluster namespace = ClusterNamespace cluster namespace"

text \<open>The method \<open>n.cacheKey()\<close>, used by the tree builder.\<close>

definition Entity_cacheKey :: "Entity \<Rightarrow> field" where
  "Entity_cacheKey n = cacheKey (Kind n) (ID n)"

text \<open>Modelled from the spec: the binary (JSON) encoding of cached values, \<open>MarshalBinary\<close> and
  \<open>UnmarshalBinary\<close>, is defined in a file that is not included. Section 4.1 and the first
  testable property: encoding round-trips with no field loss, \<open>decode (encode e) = e\<close>.
  The bytes Redis holds are therefore either the encoding of a value or some other byte
  string, which does not decode.
\<close>

datatype 'a bytes = Encoded 'a | Malformed string

definition encode :: "'a \<Rightarrow> 'a bytes" where
  "encode v = Encoded v"

fun decode :: "'a bytes \<Rightarrow> 'a option" where
  "decode (Encoded v) = Some v"
| "decode (Malformed s) = None"

text \<open>Modelled from the spec: \<open>toPair\<close> and \<open>toEnvPair\<close> (same file) build the one-entry
  map an upsert hands to \<open>HSet\<close>: the entity under its primary key, and the entity under
  its cluster/namespace key (section 4.3).
\<close>

definition toPair :: "Entity \<Rightarrow> (field, Entity) fmap" where
  "toPair n = fmupd (Entity_cacheKey n) n fmempty"

definition toEnvPair :: "Entity \<Rightarrow> (field, Entity) fmap" where
  "toEnvPair n = fmupd (envCacheKey (Cluster n) (Namespace n)) n fmempty"

subsection \<open>User authority\<close>

record UserResource =
  ur_ID :: int
  ur_Name :: string
  ur_Role :: string
  ur_IsAdmin :: bool

record UserAuthority =
  SystemRole :: string
  Tenants :: "UserResource list"
  Projects :: "UserResource list"
  Environments :: "UserResource list"
  VirtualSpaces :: "UserResource list"

text \<open>What the code reads of a \<open>models.CommonUserIface\<close>.\<close>

record CommonUser =
  GetUsername :: string
  GetSystemRoleID :: uint
  GetID :: uint

subsection \<open>The relational store\<close>

record Tenant =
  tenant_ID :: uint
  TenantName :: string

record Project =
  project_ID :: uint
  ProjectName :: string
  project_TenantID :: uint

record Cluster =
  ClusterName :: string

text \<open>\<open>env_Cluster\<close> is the preloaded pointer \<open>env.Cluster\<close>; \<open>None\<close> is \<open>nil\<close>.\<close>

record Environment =
  env_ID :: uint
  EnvironmentName :: string
  env_Namespace :: string
  env_ProjectID :: uint
  env_Cluster :: "Cluster option"

record VirtualSpace =
  vspace_ID :: uint
  VirtualSpaceName :: string

record SystemRole =
  role_ID :: uint
  RoleCode :: string

text \<open>
  The role-relation rows. The resource of a row is a pointer that \<open>Preload\<close> fills, as
  \<open>env.Cluster\<close> is: \<open>None\<close> is \<open>nil\<close>, a resource that has not been loaded.
\<close>

record TenantUserRels =
  tur_UserID :: uint
  tur_TenantID :: uint
  tur_Role :: string
  tur_Tenant :: "Tenant option"

record ProjectUserRels =
  pur_UserID :: uint
  pur_ProjectID :: uint
  pur_Role :: string
  pur_Project :: "Project option"

record EnvironmentUserRels =
  eur_UserID :: uint
  eur_EnvironmentID :: uint
  eur_Role :: string
  eur_Environment :: "Environment option"

record VirtualSpaceUserRels =
  vur_UserID :: uint
  vur_VirtualSpaceID :: uint
  vur_Role :: string
  vur_VirtualSpace :: "VirtualSpace option"

datatype table =
  TenantTable | ProjectTable | EnvironmentTable | VirtualSpaceTable | SystemRoleTable
  | TenantUserRelsTable | ProjectUserRelsTable | EnvironmentUserRelsTable
  | VirtualSpaceUserRelsTable

text \<open>
  The store: its rows, and the tables whose query currently returns an error (\<open>failing\<close>).
  A query with \<open>Preload\<close> runs in two steps, the rows first and their resources second;
  \<open>preload_failing\<close> lists the failing tables whose query fails in the second step only,
  when the rows are already in the slice. The code only reads the store, and no function
  queries a table twice.
\<close>

record db =
  tenant_rows :: "Tenant list"
  project_rows :: "Project list"
  environment_rows :: "Environment list"
  virtual_space_rows :: "VirtualSpace list"
  system_role_rows :: "SystemRole list"
  tenant_user_rel_rows :: "TenantUserRels list"
  project_user_rel_rows :: "ProjectUserRels list"
  environment_user_rel_rows :: "EnvironmentUserRels list"
  virtual_space_user_rel_rows :: "VirtualSpaceUserRels list"
  failing :: "table list"
  preload_failing :: "table list"

text \<open>Modelled from the spec: the administrative role names \<open>models.TenantRoleAdmin\<close>,
  \<open>models.ProjectRoleAdmin\<close>, \<open>models.EnvironmentRoleOperator\<close> and
  \<open>models.VirtualSpaceRoleAdmin\<close> are constants of package \<open>models\<close>, whose source is not included
  (section 4.5: one administrative role constant per resource kind); they are a parameter.
\<close>

record role_names =
  TenantRoleAdmin :: string
  ProjectRoleAdmin :: string
  EnvironmentRoleOperator :: string
  VirtualSpaceRoleAdmin :: string

subsection \<open>Errors and the state of the environment\<close>

datatype error =
  RedisUnavailable | RedisNil | RedisWrongArguments | UnmarshalError
  | DBUnavailable | RecordNotFound

text \<open>
  \<open>model_cache\<close> is the hash under \<open>ModelCacheKey\<close>; Redis has no empty hashes, so the key
  exists exactly when the hash has a field. \<open>user_cache\<close> holds the string keys, each with
  the time-to-live it was set with, in nanoseconds as \<open>time.Duration\<close> counts. The key
  \<open>ModelCacheKey\<close> is \<open>"_model_cache"\<close> and the user keys start with
  \<open>"user_authority_data__"\<close>, so the two never meet. \<open>db_queries\<close> records the queries sent
  to the relational store, oldest first.
\<close>

record world =
  model_cache :: "(field, Entity bytes) fmap"
  user_cache :: "(string, UserAuthority bytes \<times> int) fmap"
  db_queries :: "table list"

definition userAuthorizationDataExpireMinute :: int where
  "userAuthorizationDataExpireMinute = 180"

definition Minute :: int where
  "Minute = 60 * 1000000000"

subsection \<open>Redis round trips\<close>

text \<open>
  Every function of the package takes the list \<open>fs\<close> of what happens to its Redis round
  trips, in the order it makes them: \<open>True\<close> for a round trip that fails, and the empty
  list when none (further) fails. A failed round trip changes nothing in Redis.
\<close>

definition fails :: "bool list \<Rightarrow> bool" where
  "fails fs = (case fs of [] \<Rightarrow> False | b # _ \<Rightarrow> b)"

definition redis_Exists :: "bool list \<Rightarrow> world \<Rightarrow> error + int" where
  "redis_Exists fs w =
     (if fails fs then Inl RedisUnavailable
      else Inr (if fmdom (model_cache w) = {||} then 0 else 1))"

text \<open>
  The variadic \<open>values\<close> of \<open>HSet\<close>, in the two shapes the package passes: a map from field
  to value, or one bare string. The client flattens a map into \<open>field value\<close> pairs and
  passes a bare string on as it is; the command \<open>HSET key field\<close> without a value, or with
  no field at all, is rejected by the server as having the wrong number of arguments.
\<close>

datatype hset_values = MapValues "(field, Entity) fmap" | StringValue field

definition redis_HSet :: "bool list \<Rightarrow> hset_values \<Rightarrow> world \<Rightarrow> (error + int) \<times> world" where
  "redis_HSet fs values w =
     (if fails fs then (Inl RedisUnavailable, w)
      else case values of
        StringValue k \<Rightarrow> (Inl RedisWrongArguments, w)
      | MapValues m \<Rightarrow>
          if fmdom m = {||} then (Inl RedisWrongArguments, w)
          else (Inr (int (fcard (fmdom m |-| fmdom (model_cache w)))),
                w\<lparr>model_cache := model_cache w ++\<^sub>f fmmap encode m\<rparr>))"

definition redis_HDel :: "bool list \<Rightarrow> field \<Rightarrow> world \<Rightarrow> (error + int) \<times> world" where
  "redis_HDel fs k w =
     (if fails fs then (Inl RedisUnavailable, w)
      else (Inr (if k |\<in>| fmdom (model_cache w) then 1 else 0),
            w\<lparr>model_cache := fmdrop k (model_cache w)\<rparr>))"

text \<open>\<open>HGet(...).Scan(&e)\<close>: the round trip, then the decoding of what it returned.\<close>

definition redis_HGet_Scan :: "bool list \<Rightarrow> field \<Rightarrow> world \<Rightarrow> error + Entity" where
  "redis_HGet_Scan fs k w =
     (if fails fs then Inl RedisUnavailable
      else case fmlookup (model_cache w) k of
        None \<Rightarrow> Inl RedisNil
      | Some raw \<Rightarrow> (case decode raw of None \<Rightarrow> Inl UnmarshalError | Some e \<Rightarrow> Inr e))"

definition redis_Get_Scan :: "bool list \<Rightarrow> string \<Rightarrow> world \<Rightarrow> error + UserAuthority" where
  "redis_Get_Scan fs k w =
     (if fails fs then Inl RedisUnavailable
      else case fmlookup (user_cache w) k of
        None \<Rightarrow> Inl RedisNil
      | Some (raw, ttl) \<Rightarrow> (case decode raw of None \<Rightarrow> Inl UnmarshalError | Some a \<Rightarrow> Inr a))"

definition redis_Set ::
  "bool list \<Rightarrow> string \<Rightarrow> UserAuthority \<Rightarrow> int \<Rightarrow> world \<Rightarrow> (error + unit) \<times> world" where
  "redis_Set fs k v ttl w =
     (if fails fs then (Inl RedisUnavailable, w)
      else (Inr (), w\<lparr>user_cache := fmupd k (encode v, ttl) (user_cache w)\<rparr>))"

text \<open>
  \<open>Eval\<close> runs a script inside Redis, on the hash and the two further keys. A script that
  does not return is \<open>None\<close>.
\<close>

type_synonym script = "(field, Entity bytes) fmap \<Rightarrow> kind \<Rightarrow> uint \<Rightarrow> Entity bytes list option"

definition redis_Eval ::
  "bool list \<Rightarrow> script \<Rightarrow> kind \<Rightarrow> uint \<Rightarrow> world \<Rightarrow> (error + Entity bytes list) option" where
  "redis_Eval fs scr k i w =
     (if fails fs then Some (Inl RedisUnavailable)
      else map_option Inr (scr (model_cache w) k i))"

subsection \<open>The mutation API\<close>

definition UpsertTenant :: "bool list \<Rightarrow> uint \<Rightarrow> string \<Rightarrow> world \<Rightarrow> error option \<times> world" where
  "UpsertTenant fs tid name w =
     (let n = Entity name ResTenant tid [] [] [] in
      case redis_HSet fs (MapValues (toPair n)) w of
        (Inl err, w') \<Rightarrow> (Some err, w')
      | (Inr _, w') \<Rightarrow> (None, w'))"

definition DelTenant :: "bool list \<Rightarrow> uint \<Rightarrow> world \<Rightarrow> error option \<times> world" where
  "DelTenant fs tid w =
     (case redis_HDel fs (cacheKey ResTenant tid) w of
        (Inl err, w') \<Rightarrow> (Some err, w')
      | (Inr _, w') \<Rightarrow> (None, w'))"

definition UpsertProject ::
  "bool list \<Rightarrow> uint \<Rightarrow> uint \<Rightarrow> string \<Rightarrow> world \<Rightarrow> error option \<times> world" where
  "UpsertProject fs tid pid name w =
     (let n = Entity name ResProject pid [] [] [ownerRef ResTenant tid] in
      case redis_HSet fs (MapValues (toPair n)) w of
        (Inl err, w') \<Rightarrow> (Some err, w')
      | (Inr _, w') \<Rightarrow> (None, w'))"

definition DelProject :: "bool list \<Rightarrow> uint \<Rightarrow> uint \<Rightarrow> world \<Rightarrow> error option \<times> world" where
  "DelProject fs tid pid w =
     (case redis_HDel fs (cacheKey ResProject pid) w of
        (Inl err, w') \<Rightarrow> (Some err, w')
      | (Inr _, w') \<Rightarrow> (None, w'))"

definition UpsertEnvironment ::
  "bool list \<Rightarrow> uint \<Rightarrow> uint \<Rightarrow> string \<Rightarrow> string \<Rightarrow> string \<Rightarrow> world \<Rightarrow> error option \<times> world" where
  "UpsertEnvironment fs pid eid name cluster namespace w =
     (let n = Entity name ResEnvironment eid namespace cluster [ownerRef ResProject pid] in
      case redis_HSet fs (MapValues (toPair n)) w of
        (Inl err1, w1) \<Rightarrow> (Some err1, w1)
      | (Inr _, w1) \<Rightarrow>
          (case redis_HSet (tl fs) (MapValues (toEnvPair n)) w1 of
             (Inl err2, w2) \<Rightarrow> (Some err2, w2)
           | (Inr _, w2) \<Rightarrow> (None, w2)))"

definition DelEnvironment ::
  "bool list \<Rightarrow> uint \<Rightarrow> uint \<Rightarrow> string \<Rightarrow> string \<Rightarrow> world \<Rightarrow> error option \<times> world" where
  "DelEnvironment fs pid eid cluster namespace w =
     (case redis_HDel fs (cacheKey ResEnvironment eid) w of
        (Inl err, w1) \<Rightarrow> (Some err, w1)
      | (Inr _, w1) \<Rightarrow>
          (case redis_HDel (tl fs) (envCacheKey cluster namespace) w1 of
             (Inl err2, w2) \<Rightarrow> (Some err2, w2)
           | (Inr _, w2) \<Rightarrow> (None, w2)))"

text \<open>
  \<open>UpsertVirtualSpace\<close> hands \<open>HSet\<close> the key alone: no entity is built, and \<open>name\<close> is
  only logged.
\<close>

definition UpsertVirtualSpace ::
  "bool list \<Rightarrow> uint \<Rightarrow> string \<Rightarrow> world \<Rightarrow> error option \<times> world" where
  "UpsertVirtualSpace fs vid name w =
     (case redis_HSet fs (StringValue (cacheKey ResVirtualSpace vid)) w of
        (Inl err, w') \<Rightarrow> (Some err, w')
      | (Inr _, w') \<Rightarrow> (None, w'))"

definition DelVirtualSpace :: "bool list \<Rightarrow> uint \<Rightarrow> world \<Rightarrow> error option \<times> world" where
  "DelVirtualSpace fs vid w =
     (case redis_HDel fs (cacheKey ResVirtualSpace vid) w of
        (Inl err, w') \<Rightarrow> (Some err, w')
      | (Inr _, w') \<Rightarrow> (None, w'))"

subsection \<open>Point lookups\<close>

text \<open>The result is the interface value: \<open>None\<close> is \<open>nil\<close>.\<close>

definition FindResource :: "bool list \<Rightarrow> kind \<Rightarrow> uint \<Rightarrow> world \<Rightarrow> Entity option" where
  "FindResource fs k i w =
     (let key = cacheKey k i in
      case redis_HGet_Scan fs key w of Inl err \<Rightarrow> None | Inr e \<Rightarrow> Some e)"

definition FindEnvironment :: "bool list \<Rightarrow> string \<Rightarrow> string \<Rightarrow> world \<Rightarrow> Entity option" where
  "FindEnvironment fs cluster namespace w =
     (case redis_HGet_Scan fs (envCacheKey cluster namespace) w of
        Inl err \<Rightarrow> None | Inr e \<Rightarrow> Some e)"

subsection \<open>The ancestry resolver\<close>

text \<open>Modelled from the spec: the Lua source \<open>FindParentScript\<close> is a constant of a file that
  is not included. Section 4.4: the traversal runs inside the cache service; each hop fetches
  the entity at the current key, reads its owners and follows them to the next key, and the
  parents come nearest first. An owner whose key is absent contributes nothing; the bytes
  of an owner that do not decode have no owners to follow. On a cycle of owners the
  traversal does not return.
\<close>

definition ownersOf :: "Entity bytes \<Rightarrow> Entity list" where
  "ownersOf raw = (case decode raw of None \<Rightarrow> [] | Some e \<Rightarrow> Owner e)"

partial_function (option) walkOwners ::
  "(field, Entity bytes) fmap \<Rightarrow> Entity list \<Rightarrow> Entity bytes list option" where
  "walkOwners h todo =
     (case todo of
        [] \<Rightarrow> Some []
      | r # rest \<Rightarrow>
          (case fmlookup h (cacheKey (Kind r) (ID r)) of
             None \<Rightarrow> walkOwners h rest
           | Some raw \<Rightarrow>
               Option.bind (walkOwners h (rest @ ownersOf raw)) (\<lambda>out. Some (raw # out))))"

definition FindParentScript :: script where
  "FindParentScript h k i =
     (case fmlookup h (cacheKey k i) of
        None \<Rightarrow> Some []
      | Some raw \<Rightarrow> walkOwners h (ownersOf raw))"

text \<open>The loop of \<open>FindParents\<close> over the strings the script returned.\<close>

fun decodeParents :: "Entity bytes list \<Rightarrow> Entity list" where
  "decodeParents [] = []"
| "decodeParents (s # rawStringArr) =
     (case decode s of
        None \<Rightarrow> decodeParents rawStringArr
      | Some entity \<Rightarrow> entity # decodeParents rawStringArr)"

text \<open>
  \<open>FindParents\<close>, with the script it evaluates as a parameter; \<open>None\<close> when the script
  does not return, and the empty list for Go's \<open>nil\<close> slice. The script's reply is an
  array of strings, as the two type assertions of the source require.
\<close>

definition FindParentsWith ::
  "script \<Rightarrow> bool list \<Rightarrow> kind \<Rightarrow> uint \<Rightarrow> world \<Rightarrow> Entity list option" where
  "FindParentsWith scr fs k i w =
     (case redis_Eval fs scr k i w of
        None \<Rightarrow> None
      | Some (Inl err) \<Rightarrow> Some []
      | Some (Inr rawStringArr) \<Rightarrow> Some (decodeParents rawStringArr))"

definition FindParents :: "bool list \<Rightarrow> kind \<Rightarrow> uint \<Rightarrow> world \<Rightarrow> Entity list option" where
  "FindParents = FindParentsWith FindParentScript"

subsection \<open>The tree builder\<close>

text \<open>
  A query of the relational store: it is recorded, and fails when the table is among the
  failing ones.
\<close>

definition db_Find :: "table \<Rightarrow> 'a list \<Rightarrow> db \<Rightarrow> world \<Rightarrow> (error + 'a list) \<times> world" where
  "db_Find t rows d w =
     (if t \<in> set (failing d) then Inl DBUnavailable else Inr rows,
      w\<lparr>db_queries := db_queries w @ [t]\<rparr>)"

text \<open>The bodies of the four loops that fill \<open>dataMap\<close>.\<close>

definition addTenant :: "Tenant \<Rightarrow> (field, Entity) fmap \<Rightarrow> (field, Entity) fmap" where
  "addTenant tenant dataMap =
     (let n = Entity (TenantName tenant) ResTenant (tenant_ID tenant) [] [] [] in
      fmupd (Entity_cacheKey n) n dataMap)"

definition addProject :: "Project \<Rightarrow> (field, Entity) fmap \<Rightarrow> (field, Entity) fmap" where
  "addProject project dataMap =
     (let n = Entity (ProjectName project) ResProject (project_ID project) [] []
                [ownerRef ResTenant (project_TenantID project)] in
      fmupd (Entity_cacheKey n) n dataMap)"

definition addEnvironment :: "Environment \<Rightarrow> (field, Entity) fmap \<Rightarrow> (field, Entity) fmap" where
  "addEnvironment env dataMap =
     (case env_Cluster env of
        None \<Rightarrow> dataMap
      | Some cluster \<Rightarrow>
          (let n = Entity (EnvironmentName env) ResEnvironment (env_ID env) (env_Namespace env)
                     (ClusterName cluster) [ownerRef ResProject (env_ProjectID env)] in
           fmupd (envCacheKey (Cluster n) (Namespace n)) n
             (fmupd (Entity_cacheKey n) n dataMap)))"

definition addVirtualSpace :: "VirtualSpace \<Rightarrow> (field, Entity) fmap \<Rightarrow> (field, Entity) fmap" where
  "addVirtualSpace vspace dataMap =
     (let n = Entity (VirtualSpaceName vspace) ResVirtualSpace (vspace_ID vspace) [] [] [] in
      fmupd (Entity_cacheKey n) n dataMap)"

definition BuildCacheIfNotExist :: "bool list \<Rightarrow> db \<Rightarrow> world \<Rightarrow> error option \<times> world" where
  "BuildCacheIfNotExist fs d w =
     (case redis_Exists fs w of
        Inl err \<Rightarrow> (Some err, w)
      | Inr r \<Rightarrow>
          if r > 0 then (None, w)
          else
            (case db_Find TenantTable (tenant_rows d) d w of
               (Inl err, w1) \<Rightarrow> (Some err, w1)
             | (Inr tenants, w1) \<Rightarrow>
            (let dataMap1 = fold addTenant tenants fmempty in
             case db_Find ProjectTable (project_rows d) d w1 of
               (Inl err, w2) \<Rightarrow> (Some err, w2)
             | (Inr projects, w2) \<Rightarrow>
            (let dataMap2 = fold addProject projects dataMap1 in
             case db_Find EnvironmentTable (environment_rows d) d w2 of
               (Inl err, w3) \<Rightarrow> (Some err, w3)
             | (Inr envs, w3) \<Rightarrow>
            (let dataMap3 = fold addEnvironment envs dataMap2 in
             case db_Find VirtualSpaceTable (virtual_space_rows d) d w3 of
               (Inl err, w4) \<Rightarrow> (Some err, w4)
             | (Inr vspaces, w4) \<Rightarrow>
            (let dataMap = fold addVirtualSpace vspaces dataMap3 in
             if fmdom dataMap = {||} then (None, w4)
             else
               (case redis_HSet (tl fs) (MapValues dataMap) w4 of
                  (Inl err, w5) \<Rightarrow> (Some err, w5)
                | (Inr _, w5) \<Rightarrow> (None, w5))))))))"

subsection \<open>The user authority aggregator\<close>

definition userAuthorityKey :: "string \<Rightarrow> string" where
  "userAuthorityKey username = ''user_authority_data__'' @ username"

text \<open>
  \<open>DB.First(&sysrole)\<close>, where only the primary key of \<open>sysrole\<close> is set: the row with
  that key. A zero key is no condition at all, and the query returns the first row in the
  order of the primary key. An error leaves \<open>sysrole\<close> as it was.
\<close>

definition first_SystemRole :: "uint \<Rightarrow> db \<Rightarrow> error + SystemRole" where
  "first_SystemRole i d =
     (if SystemRoleTable \<in> set (failing d) then Inl DBUnavailable
      else (case (if i = 0 then sort_key role_ID (system_role_rows d)
                  else filter (\<lambda>r. role_ID r = i) (system_role_rows d)) of
              [] \<Rightarrow> Inl RecordNotFound
            | r # _ \<Rightarrow> Inr r))"

definition db_First_SystemRole :: "uint \<Rightarrow> db \<Rightarrow> world \<Rightarrow> (error + SystemRole) \<times> world" where
  "db_First_SystemRole i d w =
     (first_SystemRole i d, w\<lparr>db_queries := db_queries w @ [SystemRoleTable]\<rparr>)"

text \<open>
  \<open>DB.Preload(...).Find(&rows, ...)\<close>: the error, and what the slice holds afterwards. A
  query that succeeds leaves the rows with their resources. A query that fails in its first
  step leaves the slice \<open>nil\<close>; one that fails in the preload step leaves the rows, none
  with its resource (\<open>unloaded\<close> clears that field).
\<close>

definition slice :: "table \<Rightarrow> 'a list \<Rightarrow> ('a \<Rightarrow> 'a) \<Rightarrow> db \<Rightarrow> 'a list" where
  "slice t rows unloaded d =
     (if t \<in> set (failing d)
      then (if t \<in> set (preload_failing d) then map unloaded rows else [])
      else rows)"

definition db_Find_Preload ::
  "table \<Rightarrow> 'a list \<Rightarrow> ('a \<Rightarrow> 'a) \<Rightarrow> db \<Rightarrow> world \<Rightarrow> (error option \<times> 'a list) \<times> world" where
  "db_Find_Preload t rows unloaded d w =
     ((if t \<in> set (failing d) then Some DBUnavailable else None, slice t rows unloaded d),
      w\<lparr>db_queries := db_queries w @ [t]\<rparr>)"

text \<open>
  The bodies of the four loops that flatten the relation rows. \<open>int(x)\<close> of a \<open>uint\<close> is
  \<open>sint\<close>. Reading the name through a \<open>nil\<close> resource is a nil-pointer dereference:
  \<open>None\<close> is that panic.
\<close>

definition tenantResource :: "role_names \<Rightarrow> TenantUserRels \<Rightarrow> UserResource option" where
  "tenantResource rn r =
     (case tur_Tenant r of
        None \<Rightarrow> None
      | Some tenant \<Rightarrow>
          Some \<lparr>ur_ID = sint (tur_TenantID r), ur_Name = TenantName tenant,
                ur_Role = tur_Role r, ur_IsAdmin = (tur_Role r = TenantRoleAdmin rn)\<rparr>)"

definition projectResource :: "role_names \<Rightarrow> ProjectUserRels \<Rightarrow> UserResource option" where
  "projectResource rn r =
     (case pur_Project r of
        None \<Rightarrow> None
      | Some project \<Rightarrow>
          Some \<lparr>ur_ID = sint (pur_ProjectID r), ur_Name = ProjectName project,
                ur_Role = pur_Role r, ur_IsAdmin = (pur_Role r = ProjectRoleAdmin rn)\<rparr>)"

definition environmentResource ::
  "role_names \<Rightarrow> EnvironmentUserRels \<Rightarrow> UserResource option" where
  "environmentResource rn r =
     (case eur_Environment r of
        None \<Rightarrow> None
      | Some env \<Rightarrow>
          Some \<lparr>ur_ID = sint (eur_EnvironmentID r), ur_Name = EnvironmentName env,
                ur_Role = eur_Role r,
                ur_IsAdmin = (eur_Role r = EnvironmentRoleOperator rn)\<rparr>)"

definition virtualSpaceResource ::
  "role_names \<Rightarrow> VirtualSpaceUserRels \<Rightarrow> UserResource option" where
  "virtualSpaceResource rn r =
     (case vur_VirtualSpace r of
        None \<Rightarrow> None
      | Some vspace \<Rightarrow>
          Some \<lparr>ur_ID = sint (vur_VirtualSpaceID r), ur_Name = VirtualSpaceName vspace,
                ur_Role = vur_Role r,
                ur_IsAdmin = (vur_Role r = VirtualSpaceRoleAdmin rn)\<rparr>)"

text \<open>What a call comes to: it returns a value, or it panics.\<close>

datatype 'a outcome = Panics | Returns 'a

text \<open>
  \<open>FlushUserAuthority\<close> returns a pointer: \<open>None\<close> would be \<open>nil\<close>. It logs the error of
  each query and goes on with the slice as the query left it. The four loops run in the
  order of the source (\<open>those\<close> is a loop that stops at the first panic), before the one
  Redis round trip, the \<open>Set\<close> at the end.
\<close>

definition FlushUserAuthority ::
  "role_names \<Rightarrow> bool list \<Rightarrow> db \<Rightarrow> CommonUser \<Rightarrow> world
     \<Rightarrow> UserAuthority option outcome \<times> world" where
  "FlushUserAuthority rn fs d user w =
     (let (r0, w0) = db_First_SystemRole (GetSystemRoleID user) d w;
          sysrole = (case r0 of
                       Inl err \<Rightarrow> \<lparr>role_ID = GetSystemRoleID user, RoleCode = []\<rparr>
                     | Inr r \<Rightarrow> r);
          ((err1, turs), w1) = db_Find_Preload TenantUserRelsTable
                       (filter (\<lambda>r. tur_UserID r = GetID user) (tenant_user_rel_rows d))
                       (\<lambda>r. r\<lparr>tur_Tenant := None\<rparr>) d w0;
          ((err2, purs), w2) = db_Find_Preload ProjectUserRelsTable
                       (filter (\<lambda>r. pur_UserID r = GetID user) (project_user_rel_rows d))
                       (\<lambda>r. r\<lparr>pur_Project := None\<rparr>) d w1;
          ((err3, eurs), w3) = db_Find_Preload EnvironmentUserRelsTable
                       (filter (\<lambda>r. eur_UserID r = GetID user) (environment_user_rel_rows d))
                       (\<lambda>r. r\<lparr>eur_Environment := None\<rparr>) d w2;
          ((err4, vurs), w4) = db_Find_Preload VirtualSpaceUserRelsTable
                       (filter (\<lambda>r. vur_UserID r = GetID user) (virtual_space_user_rel_rows d))
                       (\<lambda>r. r\<lparr>vur_VirtualSpace := None\<rparr>) d w3
      in case those (map (tenantResource rn) turs) of
           None \<Rightarrow> (Panics, w4)
         | Some tenants \<Rightarrow>
        (case those (map (projectResource rn) purs) of
           None \<Rightarrow> (Panics, w4)
         | Some projects \<Rightarrow>
        (case those (map (environmentResource rn) eurs) of
           None \<Rightarrow> (Panics, w4)
         | Some envs \<Rightarrow>
        (case those (map (virtualSpaceResource rn) vurs) of
           None \<Rightarrow> (Panics, w4)
         | Some vspaces \<Rightarrow>
            (let auth = \<lparr>SystemRole = RoleCode sysrole, Tenants = tenants,
                         Projects = projects, Environments = envs,
                         VirtualSpaces = vspaces\<rparr>
             in case redis_Set fs (userAuthorityKey (GetUsername user)) auth
                       (userAuthorizationDataExpireMinute * Minute) w4 of
                  (Inl err, w5) \<Rightarrow> (Returns (Some auth), w5)
                | (Inr _, w5) \<Rightarrow> (Returns (Some auth), w5))))))"

definition GetUserAuthority ::
  "role_names \<Rightarrow> bool list \<Rightarrow> db \<Rightarrow> CommonUser \<Rightarrow> world
     \<Rightarrow> UserAuthority option outcome \<times> world" where
  "GetUserAuthority rn fs d user w =
     (case redis_Get_Scan fs (userAuthorityKey (GetUsername user)) w of
        Inl err \<Rightarrow> FlushUserAuthority rn (tl fs) d user w
      | Inr authinfo \<Rightarrow> (Returns (Some authinfo), w))"

subsection \<open>The mutation API as one interface\<close>

text \<open>
  The eight mutating methods of the interface \<open>ModelCache\<close>, as values, with the dispatch
  to the functions above; \<open>ownKeys\<close> lists the hash fields that belong to the entity a
  call names.
\<close>

datatype mutation =
  MUpsertTenant uint string
| MDelTenant uint
| MUpsertProject uint uint string
| MDelProject uint uint
| MUpsertEnvironment uint uint string string string
| MDelEnvironment uint uint string string
| MUpsertVirtualSpace uint string
| MDelVirtualSpace uint

fun mutate :: "bool list \<Rightarrow> mutation \<Rightarrow> world \<Rightarrow> error option \<times> world" where
  "mutate fs (MUpsertTenant tid name) w = UpsertTenant fs tid name w"
| "mutate fs (MDelTenant tid) w = DelTenant fs tid w"
| "mutate fs (MUpsertProject tid pid name) w = UpsertProject fs tid pid name w"
| "mutate fs (MDelProject tid pid) w = DelProject fs tid pid w"
| "mutate fs (MUpsertEnvironment pid eid name cluster namespace) w =
     UpsertEnvironment fs pid eid name cluster namespace w"
| "mutate fs (MDelEnvironment pid eid cluster namespace) w =
     DelEnvironment fs pid eid cluster namespace w"
| "mutate fs (MUpsertVirtualSpace vid name) w = UpsertVirtualSpace fs vid name w"
| "mutate fs (MDelVirtualSpace vid) w = DelVirtualSpace fs vid w"

fun ownKeys :: "mutation \<Rightarrow> field list" where
  "ownKeys (MUpsertTenant tid name) = [cacheKey ResTenant tid]"
| "ownKeys (MDelTenant tid) = [cacheKey ResTenant tid]"
| "ownKeys (MUpsertProject tid pid name) = [cacheKey ResProject pid]"
| "ownKeys (MDelProject tid pid) = [cacheKey ResProject pid]"
| "ownKeys (MUpsertEnvironment pid eid name cluster namespace) =
     [cacheKey ResEnvironment eid, envCacheKey cluster namespace]"
| "ownKeys (MDelEnvironment pid eid cluster namespace) =
     [cacheKey ResEnvironment eid, envCacheKey cluster namespace]"
| "ownKeys (MUpsertVirtualSpace vid name) = [cacheKey ResVirtualSpace vid]"
| "ownKeys (MDelVirtualSpace vid) = [cacheKey ResVirtualSpace vid]"

subsection \<open>Conditions on cache entries\<close>

text \<open>A per-user entry that is absent or whose bytes do not decode.\<close>

definition unusable :: "('a bytes \<times> int) option \<Rightarrow> bool" where
  "unusable entry = (case entry of None \<Rightarrow> True | Some (raw, ttl) \<Rightarrow> decode raw = None)"

text \<open>A hash entry that is absent, or does not decode, or decodes to an entity without owner.\<close>

definition ownerless :: "Entity bytes option \<Rightarrow> bool" where
  "ownerless entry =
     (case entry of
        None \<Rightarrow> True
      | Some raw \<Rightarrow> (case decode raw of None \<Rightarrow> True | Some e \<Rightarrow> Owner e = []))"

subsection \<open>Sample data\<close>

text \<open>A cold cache, an empty store, and the store of the specification's scenario.\<close>

definition coldWorld :: world where
  "coldWorld = \<lparr>model_cache = fmempty, user_cache = fmempty, db_queries = []\<rparr>"

definition emptyDB :: db where
  "emptyDB = \<lparr>tenant_rows = [], project_rows = [], environment_rows = [],
     virtual_space_rows = [], system_role_rows = [], tenant_user_rel_rows = [],
     project_user_rel_rows = [], environment_user_rel_rows = [],
     virtual_space_user_rel_rows = [], failing = [], preload_failing = []\<rparr>"

definition acme :: Tenant where
  "acme = \<lparr>tenant_ID = 1, TenantName = ''acme''\<rparr>"

definition web :: Project where
  "web = \<lparr>project_ID = 2, ProjectName = ''web'', project_TenantID = 1\<rparr>"

definition scenarioDB :: db where
  "scenarioDB = emptyDB\<lparr>tenant_rows := [acme], project_rows := [web]\<rparr>"

definition sampleRoles :: role_names where
  "sampleRoles = \<lparr>TenantRoleAdmin = ''admin'', ProjectRoleAdmin = ''admin'',
     EnvironmentRoleOperator = ''operator'', VirtualSpaceRoleAdmin = ''admin''\<rparr>"

definition alice :: CommonUser where
  "alice = \<lparr>GetUsername = ''alice'', GetSystemRoleID = 1, GetID = 7\<rparr>"

text \<open>
  Alice is an administrator of tenant 1; the query of her tenant relations reads its row
  and then fails to preload the tenant.
\<close>

definition preloadFailDB :: db where
  "preloadFailDB = emptyDB
     \<lparr>tenant_user_rel_rows :=
        [\<lparr>tur_UserID = 7, tur_TenantID = 1, tur_Role = ''admin'', tur_Tenant = Some acme\<rparr>],
      failing := [TenantUserRelsTable], preload_failing := [TenantUserRelsTable]\<rparr>"

text \<open>
  A cache that holds tenant 1, its project 2, that project's environment 3 and the
  virtual space 4, each as the tree builder writes it.
\<close>

definition chainWorld :: world where
  "chainWorld = coldWorld\<lparr>model_cache :=
     fmupd (cacheKey ResVirtualSpace 4) (encode (Entity ''vs'' ResVirtualSpace 4 [] [] []))
    (fmupd (envCacheKey ''c1'' ''ns1'')
       (encode (Entity ''dev'' ResEnvironment 3 ''ns1'' ''c1'' [ownerRef ResProject 2]))
    (fmupd (cacheKey ResEnvironment 3)
       (encode (Entity ''dev'' ResEnvironment 3 ''ns1'' ''c1'' [ownerRef ResProject 2]))
    (fmupd (cacheKey ResProject 2)
       (encode (Entity ''web'' ResProject 2 [] [] [ownerRef ResTenant 1]))
    (fmupd (cacheKey ResTenant 1) (encode (Entity ''acme'' ResTenant 1 [] [] []))
       fmempty))))\<rparr>"

text \<open>A script that returns the bytes of two entities with undecodable bytes between them.\<close>

definition corruptMiddle :: script where
  "corruptMiddle h k i =
     Some (map encode [Entity ''web'' ResProject 2 [] [] [ownerRef ResTenant 1]]
           @ Malformed ''{'' # map encode [Entity ''acme'' ResTenant 1 [] [] []])"

section \<open>Properties\<close>

subsection \<open>Basic facts\<close>

lemma fails_simps [simp]: "fails [] = False" "fails (b # fs) = b"
  by (simp_all add: fails_def)

lemma decode_encode [simp]: "decode (encode v) = Some v"
  by (simp add: encode_def)

lemma cacheKey_eq [simp]: "cacheKey k i = cacheKey k' i' \<longleftrightarrow> k = k' \<and> i = i'"
  by (simp add: cacheKey_def)

lemma envCacheKey_eq [simp]:
  "envCacheKey c n = envCacheKey c' n' \<longleftrightarrow> c = c' \<and> n = n'"
  by (simp add: envCacheKey_def)

lemma cacheKey_neq_envCacheKey [simp]:
  "cacheKey k i \<noteq> envCacheKey c n" "envCacheKey c n \<noteq> cacheKey k i"
  by (simp_all add: cacheKey_def envCacheKey_def)

lemma HSet_toPair:
  "redis_HSet fs (MapValues (toPair n)) w =
     (if fails fs then (Inl RedisUnavailable, w)
      else (Inr (int (fcard ({|Entity_cacheKey n|} |-| fmdom (model_cache w)))),
            w\<lparr>model_cache := fmupd (Entity_cacheKey n) (encode n) (model_cache w)\<rparr>))"
  by (simp add: redis_HSet_def toPair_def fmmap_fmupd)

lemma HSet_toEnvPair:
  "redis_HSet fs (MapValues (toEnvPair n)) w =
     (if fails fs then (Inl RedisUnavailable, w)
      else (Inr (int (fcard ({|envCacheKey (Cluster n) (Namespace n)|}
                            |-| fmdom (model_cache w)))),
            w\<lparr>model_cache := fmupd (envCacheKey (Cluster n) (Namespace n)) (encode n)
                              (model_cache w)\<rparr>))"
  by (simp add: redis_HSet_def toEnvPair_def fmmap_fmupd)

text \<open>Each mutation, as the state it leaves.\<close>

lemma UpsertTenant_eq:
  "UpsertTenant fs tid name w =
     (if fails fs then (Some RedisUnavailable, w)
      else (None, w\<lparr>model_cache := fmupd (cacheKey ResTenant tid)
                      (encode (Entity name ResTenant tid [] [] [])) (model_cache w)\<rparr>))"
  by (simp add: UpsertTenant_def HSet_toPair Entity_cacheKey_def Let_def)

lemma UpsertProject_eq:
  "UpsertProject fs tid pid name w =
     (if fails fs then (Some RedisUnavailable, w)
      else (None, w\<lparr>model_cache := fmupd (cacheKey ResProject pid)
                      (encode (Entity name ResProject pid [] [] [ownerRef ResTenant tid]))
                      (model_cache w)\<rparr>))"
  by (simp add: UpsertProject_def HSet_toPair Entity_cacheKey_def Let_def)

lemma UpsertEnvironment_eq:
  "UpsertEnvironment fs pid eid name cluster namespace w =
     (let n = Entity name ResEnvironment eid namespace cluster [ownerRef ResProject pid] in
      if fails fs then (Some RedisUnavailable, w)
      else if fails (tl fs) then
        (Some RedisUnavailable,
         w\<lparr>model_cache := fmupd (cacheKey ResEnvironment eid) (encode n) (model_cache w)\<rparr>)
      else
        (None,
         w\<lparr>model_cache := fmupd (envCacheKey cluster namespace) (encode n)
             (fmupd (cacheKey ResEnvironment eid) (encode n) (model_cache w))\<rparr>))"
  by (simp add: UpsertEnvironment_def HSet_toPair HSet_toEnvPair Entity_cacheKey_def Let_def)

lemma UpsertVirtualSpace_eq:
  "UpsertVirtualSpace fs vid name w =
     (Some (if fails fs then RedisUnavailable else RedisWrongArguments), w)"
  by (simp add: UpsertVirtualSpace_def redis_HSet_def)

lemma Del_eqs:
  "DelTenant fs tid w =
     (if fails fs then (Some RedisUnavailable, w)
      else (None, w\<lparr>model_cache := fmdrop (cacheKey ResTenant tid) (model_cache w)\<rparr>))"
  "DelProject fs tid pid w =
     (if fails fs then (Some RedisUnavailable, w)
      else (None, w\<lparr>model_cache := fmdrop (cacheKey ResProject pid) (model_cache w)\<rparr>))"
  "DelVirtualSpace fs vid w =
     (if fails fs then (Some RedisUnavailable, w)
      else (None, w\<lparr>model_cache := fmdrop (cacheKey ResVirtualSpace vid) (model_cache w)\<rparr>))"
  by (simp_all add: DelTenant_def DelProject_def DelVirtualSpace_def redis_HDel_def)

lemma DelEnvironment_eq:
  "DelEnvironment fs pid eid cluster namespace w =
     (if fails fs then (Some RedisUnavailable, w)
      else if fails (tl fs) then
        (Some RedisUnavailable,
         w\<lparr>model_cache := fmdrop (cacheKey ResEnvironment eid) (model_cache w)\<rparr>)
      else
        (None,
         w\<lparr>model_cache := fmdrop (envCacheKey cluster namespace)
             (fmdrop (cacheKey ResEnvironment eid) (model_cache w))\<rparr>))"
  by (simp add: DelEnvironment_def redis_HDel_def)

lemma FindResource_eq:
  "FindResource fs k i w =
     (if fails fs then None
      else case fmlookup (model_cache w) (cacheKey k i) of
             None \<Rightarrow> None | Some raw \<Rightarrow> decode raw)"
  by (simp add: FindResource_def redis_HGet_Scan_def split: option.splits)

lemma FindEnvironment_eq:
  "FindEnvironment fs c n w =
     (if fails fs then None
      else case fmlookup (model_cache w) (envCacheKey c n) of
             None \<Rightarrow> None | Some raw \<Rightarrow> decode raw)"
  by (simp add: FindEnvironment_def redis_HGet_Scan_def split: option.splits)

subsection \<open>Environments under two keys\<close>

text \<open>
  Claim C2. After a successful \<open>UpsertEnvironment(pid, eid, name, cluster, namespace)\<close>,
  \<open>FindResource(Environment, eid)\<close> and \<open>FindEnvironment(cluster, namespace)\<close>, when their
  round trip works, return one and the same entity, whose name and ID are the upserted
  ones; after a successful \<open>DelEnvironment(pid, eid, cluster, namespace)\<close> both lookups
  return nil.
\<close>

theorem environment_dual_key_consistency:
  "(UpsertEnvironment fs pid eid name cluster namespace w = (None, w') \<and> \<not> fails fs'
      \<longrightarrow> (\<exists>e. FindResource fs' ResEnvironment eid w' = Some e
               \<and> FindEnvironment fs' cluster namespace w' = Some e
               \<and> Name e = name \<and> ID e = eid))
   \<and> (DelEnvironment fs pid eid cluster namespace w = (None, w'')
      \<longrightarrow> FindResource fs' ResEnvironment eid w'' = None
          \<and> FindEnvironment fs' cluster namespace w'' = None)"
  by (auto simp add: UpsertEnvironment_eq DelEnvironment_eq FindResource_eq FindEnvironment_eq
      Let_def split: if_splits)

text \<open>
  The same on a cold cache: environment 2, named dev, of project 1, in namespace ns1 of
  cluster c1, is upserted and then deleted.
\<close>

theorem environment_dual_key_consistency_witness:
  "UpsertEnvironment [] 1 2 ''dev'' ''c1'' ''ns1'' coldWorld
     = (None, snd (UpsertEnvironment [] 1 2 ''dev'' ''c1'' ''ns1'' coldWorld))
   \<and> \<not> fails []
   \<and> (\<exists>e. FindResource [] ResEnvironment 2
              (snd (UpsertEnvironment [] 1 2 ''dev'' ''c1'' ''ns1'' coldWorld)) = Some e
         \<and> FindEnvironment [] ''c1'' ''ns1''
              (snd (UpsertEnvironment [] 1 2 ''dev'' ''c1'' ''ns1'' coldWorld)) = Some e
         \<and> Name e = ''dev'' \<and> ID e = 2)
   \<and> DelEnvironment [] 1 2 ''c1'' ''ns1''
         (snd (UpsertEnvironment [] 1 2 ''dev'' ''c1'' ''ns1'' coldWorld))
       = (None, snd (DelEnvironment [] 1 2 ''c1'' ''ns1''
                  (snd (UpsertEnvironment [] 1 2 ''dev'' ''c1'' ''ns1'' coldWorld))))
   \<and> FindResource [] ResEnvironment 2
        (snd (DelEnvironment [] 1 2 ''c1'' ''ns1''
           (snd (UpsertEnvironment [] 1 2 ''dev'' ''c1'' ''ns1'' coldWorld)))) = None
   \<and> FindEnvironment [] ''c1'' ''ns1''
        (snd (DelEnvironment [] 1 2 ''c1'' ''ns1''
           (snd (UpsertEnvironment [] 1 2 ''dev'' ''c1'' ''ns1'' coldWorld)))) = None"
proof -
  let ?w1 = "snd (UpsertEnvironment [] 1 2 ''dev'' ''c1'' ''ns1'' coldWorld)"
  let ?w2 = "snd (DelEnvironment [] 1 2 ''c1'' ''ns1'' ?w1)"
  have up: "UpsertEnvironment [] 1 2 ''dev'' ''c1'' ''ns1'' coldWorld = (None, ?w1)"
    by (simp add: UpsertEnvironment_eq Let_def)
  have del: "DelEnvironment [] 1 2 ''c1'' ''ns1'' ?w1 = (None, ?w2)"
    by (simp add: DelEnvironment_eq)
  have ok: "\<not> fails []"
    by simp
  from environment_dual_key_consistency
         [of "[]" 1 2 "''dev''" "''c1''" "''ns1''" coldWorld ?w1 "[]" ?w2]
       environment_dual_key_consistency
         [of "[]" 1 2 "''dev''" "''c1''" "''ns1''" ?w1 ?w1 "[]" ?w2]
       up del ok
  show ?thesis
    by blast
qed

text \<open>
  Claim C9. The two writes of \<open>UpsertEnvironment\<close> are separate round trips: when the first
  succeeds and the second fails, the call returns the error, the primary entry already
  holds the new entity, and the cluster/namespace entry is what it was. Likewise, when the
  second deletion of \<open>DelEnvironment\<close> fails, the call returns the error, the primary entry
  is gone and the cluster/namespace entry remains.
\<close>

theorem environment_writes_not_atomic:
  "(let n = Entity name ResEnvironment eid namespace cluster [ownerRef ResProject pid];
        r = UpsertEnvironment (False # True # fs) pid eid name cluster namespace w
    in fst r = Some RedisUnavailable
       \<and> fmlookup (model_cache (snd r)) (cacheKey ResEnvironment eid) = Some (encode n)
       \<and> fmlookup (model_cache (snd r)) (envCacheKey cluster namespace)
           = fmlookup (model_cache w) (envCacheKey cluster namespace))
   \<and> (let r = DelEnvironment (False # True # fs) pid eid cluster namespace w
      in fst r = Some RedisUnavailable
         \<and> fmlookup (model_cache (snd r)) (cacheKey ResEnvironment eid) = None
         \<and> fmlookup (model_cache (snd r)) (envCacheKey cluster namespace)
             = fmlookup (model_cache w) (envCacheKey cluster namespace))"
  by (simp add: UpsertEnvironment_eq DelEnvironment_eq Let_def)

subsection \<open>What a mutation leaves alone\<close>

lemma mutate_frame_lookup:
  "k \<notin> set (ownKeys m) \<Longrightarrow>
   fmlookup (model_cache (snd (mutate fs m w))) k = fmlookup (model_cache w) k"
  by (cases m)
     (auto simp add: UpsertTenant_eq UpsertProject_eq UpsertEnvironment_eq DelEnvironment_eq
        UpsertVirtualSpace_eq Del_eqs Let_def)

lemma mutate_frame_rest:
  "user_cache (snd (mutate fs m w)) = user_cache w"
  "db_queries (snd (mutate fs m w)) = db_queries w"
  by (cases m; simp add: UpsertTenant_eq UpsertProject_eq UpsertEnvironment_eq
        DelEnvironment_eq UpsertVirtualSpace_eq Del_eqs Let_def)+

text \<open>
  Claim C7. Whatever mutation of the API runs, and whether or not its round trips succeed,
  every field of the hash other than the keys of the entity it names holds afterwards what
  it held before, and the per-user entries are untouched. In particular \<open>DelProject(tid,
  pid)\<close> leaves the primary entry of any environment \<open>eid\<close> and any cluster/namespace
  entry as they were: there is no cascading delete.
\<close>

theorem mutation_frame:
  "(k \<notin> set (ownKeys m) \<longrightarrow>
      fmlookup (model_cache (snd (mutate fs m w))) k = fmlookup (model_cache w) k)
   \<and> user_cache (snd (mutate fs m w)) = user_cache w
   \<and> fmlookup (model_cache (snd (DelProject fs tid pid w))) (cacheKey ResEnvironment eid)
       = fmlookup (model_cache w) (cacheKey ResEnvironment eid)
   \<and> fmlookup (model_cache (snd (DelProject fs tid pid w))) (envCacheKey cluster namespace)
       = fmlookup (model_cache w) (envCacheKey cluster namespace)"
  using mutate_frame_lookup [of "cacheKey ResEnvironment eid" "MDelProject tid pid" fs w]
    mutate_frame_lookup [of "envCacheKey cluster namespace" "MDelProject tid pid" fs w]
  by (simp add: mutate_frame_lookup mutate_frame_rest)

text \<open>
  Project 2 of tenant 1 is deleted from a cache that holds environment 3 of that project:
  the environment's primary entry is still there.
\<close>

theorem mutation_frame_witness:
  "cacheKey ResEnvironment 3 \<notin> set (ownKeys (MDelProject 1 2))
   \<and> fmlookup (model_cache (snd (mutate [] (MDelProject 1 2)
          (snd (UpsertEnvironment [] 2 3 ''dev'' ''c1'' ''ns1''
             (snd (UpsertProject [] 1 2 ''web'' coldWorld)))))))
        (cacheKey ResEnvironment 3)
       = Some (encode (Entity ''dev'' ResEnvironment 3 ''ns1'' ''c1'' [ownerRef ResProject 2]))"
  using mutation_frame [of "cacheKey ResEnvironment 3" "MDelProject 1 2" "[]"
      "snd (UpsertEnvironment [] 2 3 ''dev'' ''c1'' ''ns1''
             (snd (UpsertProject [] 1 2 ''web'' coldWorld)))"]
  by (simp add: UpsertEnvironment_eq UpsertProject_eq Let_def)

subsection \<open>Upserting a virtual space\<close>

text \<open>
  Claim C4, at a concrete call. \<open>UpsertVirtualSpace(1, "vs")\<close> on a cold cache with Redis
  reachable: the call returns an error and the cache is as cold as before, so that
  \<open>FindResource(VirtualSpace, 1)\<close> returns nil. No entity with ID 1 and name vs was written.
\<close>

theorem UpsertVirtualSpace_writes_nothing:
  "UpsertVirtualSpace [] 1 ''vs'' coldWorld = (Some RedisWrongArguments, coldWorld)
   \<and> FindResource [] ResVirtualSpace 1 (snd (UpsertVirtualSpace [] 1 ''vs'' coldWorld)) = None"
  by (simp add: UpsertVirtualSpace_eq FindResource_eq coldWorld_def)

text \<open>No call of \<open>UpsertVirtualSpace\<close> succeeds, and none changes the state.\<close>

lemma UpsertVirtualSpace_never_succeeds:
  "fst (UpsertVirtualSpace fs vid name w) \<noteq> None \<and> snd (UpsertVirtualSpace fs vid name w) = w"
  by (simp add: UpsertVirtualSpace_eq)

subsection \<open>The tree builder\<close>

lemma Build_exists:
  "fmdom (model_cache w) \<noteq> {||} \<Longrightarrow>
   BuildCacheIfNotExist fs d w = (if fails fs then Some RedisUnavailable else None, w)"
  by (simp add: BuildCacheIfNotExist_def redis_Exists_def)

text \<open>The rebuild of the scenario's store on a cold cache.\<close>

lemma Build_scenario:
  "BuildCacheIfNotExist [] scenarioDB coldWorld =
     (None,
      \<lparr>model_cache =
         fmupd (cacheKey ResProject 2)
           (encode (Entity ''web'' ResProject 2 [] [] [ownerRef ResTenant 1]))
           (fmupd (cacheKey ResTenant 1) (encode (Entity ''acme'' ResTenant 1 [] [] []))
              fmempty),
       user_cache = fmempty,
       db_queries = [TenantTable, ProjectTable, EnvironmentTable, VirtualSpaceTable]\<rparr>)"
  by (simp add: BuildCacheIfNotExist_def redis_Exists_def db_Find_def scenarioDB_def
      emptyDB_def coldWorld_def acme_def web_def addTenant_def addProject_def
      Entity_cacheKey_def redis_HSet_def fmmap_fmupd Let_def)

text \<open>
  Claim C3. When the hash under the top-level key exists, \<open>BuildCacheIfNotExist\<close> changes
  nothing at all: the cache is the same, no query goes to the relational store, and the
  call returns nil unless the existence check itself failed. Hence a second call, on the
  cache a first call left populated and with the same store, leaves every key and value
  as it is.
\<close>

theorem BuildCacheIfNotExist_idempotent:
  "(fmdom (model_cache w) \<noteq> {||} \<longrightarrow>
      BuildCacheIfNotExist fs d w = (if fails fs then Some RedisUnavailable else None, w))
   \<and> (fmdom (model_cache (snd (BuildCacheIfNotExist fs d w))) \<noteq> {||} \<longrightarrow>
        snd (BuildCacheIfNotExist fs' d (snd (BuildCacheIfNotExist fs d w)))
          = snd (BuildCacheIfNotExist fs d w))"
  by (simp add: Build_exists)

text \<open>
  The scenario's store is built into a cold cache, and built again: the second call
  returns nil and the world is the one the first call left.
\<close>

theorem BuildCacheIfNotExist_idempotent_witness:
  "fmdom (model_cache (snd (BuildCacheIfNotExist [] scenarioDB coldWorld))) \<noteq> {||}
   \<and> BuildCacheIfNotExist [] scenarioDB (snd (BuildCacheIfNotExist [] scenarioDB coldWorld))
       = (None, snd (BuildCacheIfNotExist [] scenarioDB coldWorld))
   \<and> fmlookup (model_cache (snd (BuildCacheIfNotExist [] scenarioDB
                   (snd (BuildCacheIfNotExist [] scenarioDB coldWorld)))))
        (cacheKey ResTenant 1)
       = Some (encode (Entity ''acme'' ResTenant 1 [] [] []))"
proof -
  let ?w1 = "snd (BuildCacheIfNotExist [] scenarioDB coldWorld)"
  have populated: "fmdom (model_cache ?w1) \<noteq> {||}"
    by (simp add: Build_scenario)
  have entry: "fmlookup (model_cache ?w1) (cacheKey ResTenant 1)
                 = Some (encode (Entity ''acme'' ResTenant 1 [] [] []))"
    by (simp add: Build_scenario)
  from BuildCacheIfNotExist_idempotent [of ?w1 "[]" scenarioDB "[]"]
       BuildCacheIfNotExist_idempotent [of coldWorld "[]" scenarioDB "[]"]
       populated entry
  show ?thesis
    by simp
qed

text \<open>
  Claim C10. With no tenant, project, environment or virtual-space row in the store, a
  rebuild writes nothing, whatever fails: the hash and the per-user entries are as before.
  When the existence check and the four queries succeed it returns nil. On a cold cache the
  hash is therefore still absent afterwards, the next existence check still answers 0, and
  the next call sends the four queries to the store again.
\<close>

theorem empty_rebuild_never_latches:
  "tenant_rows d = [] \<and> project_rows d = [] \<and> environment_rows d = []
     \<and> virtual_space_rows d = [] \<longrightarrow>
   model_cache (snd (BuildCacheIfNotExist fs d w)) = model_cache w
   \<and> user_cache (snd (BuildCacheIfNotExist fs d w)) = user_cache w
   \<and> (\<not> fails fs \<and> failing d = [] \<longrightarrow> fst (BuildCacheIfNotExist fs d w) = None)
   \<and> (fmdom (model_cache w) = {||} \<and> \<not> fails fs' \<longrightarrow>
        redis_Exists fs' (snd (BuildCacheIfNotExist fs d w)) = Inr 0)
   \<and> (fmdom (model_cache w) = {||} \<and> \<not> fails fs' \<and> failing d = [] \<longrightarrow>
        BuildCacheIfNotExist fs' d (snd (BuildCacheIfNotExist fs d w))
          = (None, (snd (BuildCacheIfNotExist fs d w))
                     \<lparr>db_queries := db_queries (snd (BuildCacheIfNotExist fs d w))
                        @ [TenantTable, ProjectTable, EnvironmentTable, VirtualSpaceTable]\<rparr>))"
proof (intro impI)
  assume empty: "tenant_rows d = [] \<and> project_rows d = [] \<and> environment_rows d = []
     \<and> virtual_space_rows d = []"
  let ?w1 = "snd (BuildCacheIfNotExist fs d w)"
  have same: "model_cache ?w1 = model_cache w" "user_cache ?w1 = user_cache w"
    using empty by (simp_all add: BuildCacheIfNotExist_def redis_Exists_def db_Find_def)
  have ok: "fst (BuildCacheIfNotExist fs d w) = None" if "\<not> fails fs \<and> failing d = []"
    using empty that by (simp add: BuildCacheIfNotExist_def redis_Exists_def db_Find_def)
  have scan: "BuildCacheIfNotExist fs' d v =
       (None, v\<lparr>db_queries := db_queries v
                  @ [TenantTable, ProjectTable, EnvironmentTable, VirtualSpaceTable]\<rparr>)"
    if "fmdom (model_cache v) = {||}" "\<not> fails fs'" "failing d = []" for v
    using empty that by (simp add: BuildCacheIfNotExist_def redis_Exists_def db_Find_def)
  show "model_cache ?w1 = model_cache w
   \<and> user_cache ?w1 = user_cache w
   \<and> (\<not> fails fs \<and> failing d = [] \<longrightarrow> fst (BuildCacheIfNotExist fs d w) = None)
   \<and> (fmdom (model_cache w) = {||} \<and> \<not> fails fs' \<longrightarrow> redis_Exists fs' ?w1 = Inr 0)
   \<and> (fmdom (model_cache w) = {||} \<and> \<not> fails fs' \<and> failing d = [] \<longrightarrow>
        BuildCacheIfNotExist fs' d ?w1
          = (None, ?w1\<lparr>db_queries := db_queries ?w1
                        @ [TenantTable, ProjectTable, EnvironmentTable, VirtualSpaceTable]\<rparr>))"
    using same ok scan [of ?w1] by (simp add: redis_Exists_def)
qed

text \<open>Two rebuilds of the empty store on a cold cache: eight queries, and still no hash.\<close>

theorem empty_rebuild_never_latches_witness:
  "tenant_rows emptyDB = [] \<and> project_rows emptyDB = [] \<and> environment_rows emptyDB = []
     \<and> virtual_space_rows emptyDB = [] \<and> \<not> fails [] \<and> failing emptyDB = []
     \<and> fmdom (model_cache coldWorld) = {||}
   \<and> fst (BuildCacheIfNotExist [] emptyDB coldWorld) = None
   \<and> redis_Exists [] (snd (BuildCacheIfNotExist [] emptyDB coldWorld)) = Inr 0
   \<and> BuildCacheIfNotExist [] emptyDB (snd (BuildCacheIfNotExist [] emptyDB coldWorld))
       = (None, coldWorld\<lparr>db_queries :=
            [TenantTable, ProjectTable, EnvironmentTable, VirtualSpaceTable,
             TenantTable, ProjectTable, EnvironmentTable, VirtualSpaceTable]\<rparr>)"
proof -
  have first: "snd (BuildCacheIfNotExist [] emptyDB coldWorld) =
      coldWorld\<lparr>db_queries :=
        [TenantTable, ProjectTable, EnvironmentTable, VirtualSpaceTable]\<rparr>"
    by (simp add: BuildCacheIfNotExist_def redis_Exists_def db_Find_def emptyDB_def
        coldWorld_def)
  have hyps: "tenant_rows emptyDB = [] \<and> project_rows emptyDB = []
      \<and> environment_rows emptyDB = [] \<and> virtual_space_rows emptyDB = []
      \<and> failing emptyDB = [] \<and> fmdom (model_cache coldWorld) = {||}"
    by (simp add: emptyDB_def coldWorld_def)
  from empty_rebuild_never_latches [of emptyDB "[]" coldWorld "[]"] hyps first
  show ?thesis
    by simp
qed

subsection \<open>The user authority aggregator\<close>

text \<open>
  What \<open>FlushUserAuthority\<close> comes to depends on the store and the user alone; the state
  it leaves has the same hash, and a new per-user entry only when the call returns and its
  \<open>Set\<close> succeeded.
\<close>

lemma Flush_fst_indep:
  "fst (FlushUserAuthority rn fs d user w) = fst (FlushUserAuthority rn fs' d user w')"
  by (simp add: FlushUserAuthority_def db_First_SystemRole_def db_Find_Preload_def
      redis_Set_def Let_def split: option.splits)

lemma Flush_returns_Some:
  "fst (FlushUserAuthority rn fs d user w) = Returns r \<Longrightarrow> r \<noteq> None"
  by (auto simp add: FlushUserAuthority_def db_First_SystemRole_def db_Find_Preload_def
      redis_Set_def Let_def split: option.splits if_splits)

lemma Flush_user_cache:
  "user_cache (snd (FlushUserAuthority rn fs d user w)) =
     (case fst (FlushUserAuthority rn fs d user w) of
        Panics \<Rightarrow> user_cache w
      | Returns r \<Rightarrow>
          if fails fs then user_cache w
          else fmupd (userAuthorityKey (GetUsername user)) (encode (the r), 180 * Minute)
                 (user_cache w))"
  by (simp add: FlushUserAuthority_def db_First_SystemRole_def db_Find_Preload_def
      redis_Set_def Let_def userAuthorizationDataExpireMinute_def
      split: option.splits)

lemma Flush_emptyDB:
  "fst (FlushUserAuthority rn fs emptyDB user w)
     = Returns (Some \<lparr>SystemRole = [], Tenants = [], Projects = [], Environments = [],
                       VirtualSpaces = []\<rparr>)"
  by (simp add: FlushUserAuthority_def db_First_SystemRole_def first_SystemRole_def
      db_Find_Preload_def slice_def redis_Set_def Let_def emptyDB_def)

lemma Get_Scan_unusable:
  "unusable (fmlookup (user_cache w) k) \<Longrightarrow> \<exists>err. redis_Get_Scan fs k w = Inl err"
  by (auto simp add: redis_Get_Scan_def unusable_def split: option.splits)

text \<open>
  Where the claim holds: a relation query that fails before it has read a row leaves its
  list empty, and the lists of the queries that succeed hold the user's rows, provided every
  row read has its resource.
\<close>

lemma Flush_tenant_query_fails_early:
  assumes "TenantUserRelsTable \<in> set (failing d)"
    "TenantUserRelsTable \<notin> set (preload_failing d)"
    "fst (FlushUserAuthority rn fs d user w) = Returns (Some auth)"
  shows "Tenants auth = []"
proof -
  have "slice TenantUserRelsTable rows unloaded d = []"
    for rows and unloaded :: "TenantUserRels \<Rightarrow> TenantUserRels"
    using assms(1,2) by (simp add: slice_def)
  with assms(3) show ?thesis
    by (auto simp add: FlushUserAuthority_def db_First_SystemRole_def db_Find_Preload_def
        redis_Set_def Let_def split: option.splits if_splits)
qed

text \<open>
  Claim C6, at a concrete call. Alice has one tenant relation; the query of her tenant
  relations returns an error from its preload step, the row already in the slice and its
  tenant \<open>nil\<close>. \<open>FlushUserAuthority\<close> logs the error, goes on, and panics in the loop over
  that slice: it returns no authority, with an empty tenant list or otherwise, and writes
  nothing to the cache.
\<close>

theorem FlushUserAuthority_panics_after_failed_preload:
  "fst (FlushUserAuthority sampleRoles [] preloadFailDB alice coldWorld) = Panics
   \<and> user_cache (snd (FlushUserAuthority sampleRoles [] preloadFailDB alice coldWorld))
       = fmempty"
  by (simp add: FlushUserAuthority_def db_First_SystemRole_def db_Find_Preload_def slice_def
      preloadFailDB_def emptyDB_def alice_def acme_def coldWorld_def tenantResource_def
      Let_def)

text \<open>
  Claim C5, as stated, at a concrete call. The cache holds no entry for alice, the read
  answers with a miss, and the write that follows fails: \<open>GetUserAuthority\<close> returns what
  \<open>FlushUserAuthority\<close> returns, but there is still no entry for alice afterwards.
\<close>

theorem GetUserAuthority_fallback_counterexample:
  "fmlookup (user_cache coldWorld) (userAuthorityKey (GetUsername alice)) = None
   \<and> fst (GetUserAuthority sampleRoles [False, True] emptyDB alice coldWorld)
       = fst (FlushUserAuthority sampleRoles [] emptyDB alice coldWorld)
   \<and> fmlookup (user_cache (snd (GetUserAuthority sampleRoles [False, True] emptyDB alice
                                    coldWorld)))
        (userAuthorityKey (GetUsername alice)) = None"
proof -
  have get: "GetUserAuthority sampleRoles [False, True] emptyDB alice coldWorld
      = FlushUserAuthority sampleRoles [True] emptyDB alice coldWorld"
    by (simp add: GetUserAuthority_def redis_Get_Scan_def coldWorld_def)
  show ?thesis
    unfolding get
    by (simp add: Flush_user_cache Flush_emptyDB coldWorld_def)
qed

text \<open>
  Claim C5, amended. When the user's entry is absent or does not decode,
  \<open>GetUserAuthority\<close> comes to what \<open>FlushUserAuthority\<close> comes to for that user. When
  that is an authority, it is never nil; if the write-back succeeds, the user's entry
  afterwards is that authority, freshly encoded, with a time-to-live of 180 minutes, and if
  the write-back fails the per-user entries are as they were. When it is a panic, nothing
  has been written.
\<close>

theorem GetUserAuthority_fallback:
  "unusable (fmlookup (user_cache w) (userAuthorityKey (GetUsername user))) \<longrightarrow>
   fst (GetUserAuthority rn fs d user w) = fst (FlushUserAuthority rn fs' d user w)
   \<and> (case fst (GetUserAuthority rn fs d user w) of
        Panics \<Rightarrow> user_cache (snd (GetUserAuthority rn fs d user w)) = user_cache w
      | Returns r \<Rightarrow>
          (\<exists>auth. r = Some auth
             \<and> user_cache (snd (GetUserAuthority rn fs d user w)) =
                 (if fails (tl fs) then user_cache w
                  else fmupd (userAuthorityKey (GetUsername user))
                         (encode auth, 180 * Minute) (user_cache w))))"
proof
  assume "unusable (fmlookup (user_cache w) (userAuthorityKey (GetUsername user)))"
  then obtain err where
    "redis_Get_Scan fs (userAuthorityKey (GetUsername user)) w = Inl err"
    using Get_Scan_unusable by blast
  then have get: "GetUserAuthority rn fs d user w = FlushUserAuthority rn (tl fs) d user w"
    by (simp add: GetUserAuthority_def)
  have same: "fst (FlushUserAuthority rn (tl fs) d user w)
                = fst (FlushUserAuthority rn fs' d user w)"
    by (rule Flush_fst_indep)
  have cache: "case fst (FlushUserAuthority rn (tl fs) d user w) of
        Panics \<Rightarrow> user_cache (snd (FlushUserAuthority rn (tl fs) d user w)) = user_cache w
      | Returns r \<Rightarrow>
          (\<exists>auth. r = Some auth
             \<and> user_cache (snd (FlushUserAuthority rn (tl fs) d user w)) =
                 (if fails (tl fs) then user_cache w
                  else fmupd (userAuthorityKey (GetUsername user))
                         (encode auth, 180 * Minute) (user_cache w)))"
  proof (cases "fst (FlushUserAuthority rn (tl fs) d user w)")
    case Panics
    then show ?thesis
      by (simp add: Flush_user_cache)
  next
    case (Returns r)
    then obtain auth where "r = Some auth"
      using Flush_returns_Some by blast
    with Returns show ?thesis
      by (simp add: Flush_user_cache)
  qed
  show "fst (GetUserAuthority rn fs d user w) = fst (FlushUserAuthority rn fs' d user w)
   \<and> (case fst (GetUserAuthority rn fs d user w) of
        Panics \<Rightarrow> user_cache (snd (GetUserAuthority rn fs d user w)) = user_cache w
      | Returns r \<Rightarrow>
          (\<exists>auth. r = Some auth
             \<and> user_cache (snd (GetUserAuthority rn fs d user w)) =
                 (if fails (tl fs) then user_cache w
                  else fmupd (userAuthorityKey (GetUsername user))
                         (encode auth, 180 * Minute) (user_cache w))))"
    unfolding get using same cache by simp
qed

text \<open>
  Alice has no entry and no role anywhere; every round trip works. The call returns the
  empty authority and leaves it under her key.
\<close>

theorem GetUserAuthority_fallback_witness:
  "unusable (fmlookup (user_cache coldWorld) (userAuthorityKey (GetUsername alice)))
   \<and> fst (GetUserAuthority sampleRoles [] emptyDB alice coldWorld)
       = fst (FlushUserAuthority sampleRoles [] emptyDB alice coldWorld)
   \<and> fst (GetUserAuthority sampleRoles [] emptyDB alice coldWorld)
       = Returns (Some \<lparr>SystemRole = [], Tenants = [], Projects = [], Environments = [],
                         VirtualSpaces = []\<rparr>)
   \<and> fmlookup (user_cache (snd (GetUserAuthority sampleRoles [] emptyDB alice coldWorld)))
        (userAuthorityKey ''alice'')
       = Some (encode \<lparr>SystemRole = [], Tenants = [], Projects = [], Environments = [],
                        VirtualSpaces = []\<rparr>, 180 * Minute)"
proof -
  have absent:
    "unusable (fmlookup (user_cache coldWorld) (userAuthorityKey (GetUsername alice)))"
    by (simp add: coldWorld_def unusable_def)
  have val: "fst (FlushUserAuthority sampleRoles [] emptyDB alice coldWorld)
     = Returns (Some \<lparr>SystemRole = [], Tenants = [], Projects = [], Environments = [],
                       VirtualSpaces = []\<rparr>)"
    by (rule Flush_emptyDB)
  from GetUserAuthority_fallback [of coldWorld alice sampleRoles "[]" emptyDB "[]"] absent val
  show ?thesis
    by (auto simp add: alice_def)
qed

subsection \<open>The ancestry resolver\<close>

lemma decodeParents_append:
  "decodeParents (xs @ ys) = decodeParents xs @ decodeParents ys"
  by (induction xs) (simp_all split: option.splits)

lemma decodeParents_encoded: "decodeParents (map encode es) = es"
  by (induction es) (simp_all add: encode_def)

lemma FindParentsWith_eq:
  "FindParentsWith scr fs k i w =
     (if fails fs then Some [] else map_option decodeParents (scr (model_cache w) k i))"
  by (cases "scr (model_cache w) k i") (simp_all add: FindParentsWith_def redis_Eval_def)

lemma FindParents_eq:
  "FindParents fs k i w =
     (if fails fs then Some []
      else map_option decodeParents (FindParentScript (model_cache w) k i))"
  by (simp add: FindParents_def FindParentsWith_eq)



text \<open>The traversal, one step at a time.\<close>

lemma walkOwners_Nil: "walkOwners h [] = Some []"
  by (subst walkOwners.simps) simp

lemma walkOwners_Cons:
  "walkOwners h (r # rest) =
     (case fmlookup h (cacheKey (Kind r) (ID r)) of
        None \<Rightarrow> walkOwners h rest
      | Some raw \<Rightarrow>
          Option.bind (walkOwners h (rest @ ownersOf raw)) (\<lambda>out. Some (raw # out)))"
  by (subst walkOwners.simps) simp

lemma ownersOf_encode [simp]: "ownersOf (encode e) = Owner e"
  by (simp add: ownersOf_def encode_def)

lemma script_chain:
  assumes "fmlookup h (cacheKey ResTenant tid) = Some (encode T)" "Owner T = []"
    and "fmlookup h (cacheKey ResProject pid) = Some (encode P)"
      "Owner P = [ownerRef ResTenant tid]"
    and "fmlookup h (cacheKey ResEnvironment eid) = Some (encode E)"
      "Owner E = [ownerRef ResProject pid]"
  shows "FindParentScript h ResEnvironment eid = Some (map encode [P, T])"
  using assms
  by (simp add: FindParentScript_def walkOwners_Cons walkOwners_Nil ownerRef_def)

lemma script_no_owner:
  assumes "ownerless (fmlookup h (cacheKey k i))"
  shows "FindParentScript h k i = Some []"
proof (cases "fmlookup h (cacheKey k i)")
  case None
  then show ?thesis by (simp add: FindParentScript_def)
next
  case (Some raw)
  with assms have "ownersOf raw = []"
    by (simp add: ownerless_def ownersOf_def split: option.splits)
  with Some show ?thesis by (simp add: FindParentScript_def walkOwners_Nil)
qed



end
